theory Spec2Isabelle
  imports Complex_Main
begin

section \<open>Arrays and failures\<close>

text \<open>
  An array is its shape together with its elements in row-major order, as
  \<^verbatim>\<open>jax.numpy\<close> stores it. Elements are real numbers: rounding, infinities and
  NaN of the floating-point types are not part of this model, and dimensions
  are natural numbers. An array is well formed when it holds as many elements
  as its shape asks for.
\<close>

record tensor =
  shape :: "nat list"
  data :: "real list"

definition ndim :: "tensor \<Rightarrow> nat" where
  "ndim t = length (shape t)"

definition wf_tensor :: "tensor \<Rightarrow> bool" where
  "wf_tensor t = (length (data t) = prod_list (shape t))"

text \<open>The exceptions the modelled code and the library calls it makes can raise.\<close>

datatype error =
  AssertionError
  | TypeError
  | ValueError
  | IndexError
  | AttributeError
  | ScopeParamShapeError

definition and_then :: "error + 'a \<Rightarrow> ('a \<Rightarrow> error + 'b) \<Rightarrow> error + 'b" where
  "and_then r f = (case r of Inl e \<Rightarrow> Inl e | Inr v \<Rightarrow> f v)"

text \<open>\<^verbatim>\<open>t.shape[i]\<close> for a non-negative index: a tuple read, IndexError out of range.\<close>

definition shape_at :: "tensor \<Rightarrow> nat \<Rightarrow> error + nat" where
  "shape_at t i = (if i < ndim t then Inr (shape t ! i) else Inl IndexError)"

text \<open>An elementwise operation, and \<^verbatim>\<open>jnp.zeros(shape)\<close>.\<close>

definition tmap :: "(real \<Rightarrow> real) \<Rightarrow> tensor \<Rightarrow> tensor" where
  "tmap f t = \<lparr>shape = shape t, data = map f (data t)\<rparr>"

definition zeros :: "nat list \<Rightarrow> tensor" where
  "zeros s = \<lparr>shape = s, data = replicate (prod_list s) 0\<rparr>"

text \<open>
  The slices of an array of rank at least one along its trailing axis: each row
  holds \<open>last (shape t)\<close> consecutive elements. The callers below test the rank
  before they ask for rows.
\<close>

definition chunks :: "nat \<Rightarrow> nat \<Rightarrow> 'a list \<Rightarrow> 'a list list" where
  "chunks n d xs = map (\<lambda>i. take d (drop (i * d) xs)) [0..<n]"

definition rows :: "tensor \<Rightarrow> real list list" where
  "rows t = chunks (prod_list (butlast (shape t))) (last (shape t)) (data t)"

text \<open>
  \<^verbatim>\<open>x.mean(axis=0, keepdims=...)\<close>. A rank-0 array has no axis 0 (ValueError).
  Over an empty axis the floating-point result is NaN, which the reals do not
  have: the value-level theorems below ask for at least one agent.
\<close>

definition mean_axis0 :: "bool \<Rightarrow> tensor \<Rightarrow> error + tensor" where
  "mean_axis0 keepdims t =
     (case shape t of
        [] \<Rightarrow> Inl ValueError
      | n # s \<Rightarrow>
          Inr \<lparr>shape = (if keepdims then 1 # s else s),
               data = map (\<lambda>k. (\<Sum>i\<leftarrow>[0..<n]. data t ! (i * prod_list s + k)) / real n)
                        [0..<prod_list s]\<rparr>)"

text \<open>
  \<^verbatim>\<open>jnp.tile(t, reps)\<close>: the shorter of the shape and \<open>reps\<close> is padded with
  leading ones, then every axis is repeated as often as \<open>reps\<close> says.
\<close>

fun tile_data :: "nat list \<Rightarrow> nat list \<Rightarrow> real list \<Rightarrow> real list" where
  "tile_data (n # s) (r # rs) xs =
     concat (replicate r (concat (map (tile_data s rs) (chunks n (prod_list s) xs))))"
| "tile_data _ _ xs = xs"

definition tile :: "tensor \<Rightarrow> nat list \<Rightarrow> tensor" where
  "tile t reps =
     (let k = max (ndim t) (length reps);
          s = replicate (k - ndim t) 1 @ shape t;
          r = replicate (k - length reps) 1 @ reps
      in \<lparr>shape = map2 (*) s r, data = tile_data s r (data t)\<rparr>)"

text \<open>
  \<^verbatim>\<open>jnp.concatenate([a, b], axis=-1)\<close>: rank-0 operands are refused
  (ValueError); operands of different ranks, or whose shapes differ on an axis
  other than the last, are refused (TypeError). Nothing is broadcast.
\<close>

definition concatenate_last :: "tensor \<Rightarrow> tensor \<Rightarrow> error + tensor" where
  "concatenate_last a b =
     (if shape a = [] then Inl ValueError
      else if ndim a \<noteq> ndim b \<or> butlast (shape a) \<noteq> butlast (shape b) then Inl TypeError
      else Inr \<lparr>shape = butlast (shape a) @ [last (shape a) + last (shape b)],
                data = concat (map2 (@) (rows a) (rows b))\<rparr>)"

text \<open>
  \<^verbatim>\<open>flax.linen.Dense(features)\<close> applied with given variables: the kernel must
  have shape (trailing input width, features) and the bias (features,), or flax
  raises ScopeParamShapeError; a rank-0 input has no trailing axis (IndexError).
  Every row \<open>x\<close> becomes \<open>x \<cdot> kernel + bias\<close>.
\<close>

record dense_vars =
  kernel :: tensor
  bias :: tensor

definition dense_row :: "dense_vars \<Rightarrow> nat \<Rightarrow> nat \<Rightarrow> real list \<Rightarrow> real list" where
  "dense_row p d f x =
     map (\<lambda>j. (\<Sum>i\<leftarrow>[0..<d]. x ! i * data (kernel p) ! (i * f + j)) + data (bias p) ! j) [0..<f]"

definition Dense :: "nat \<Rightarrow> dense_vars \<Rightarrow> tensor \<Rightarrow> error + tensor" where
  "Dense features p x =
     (if shape x = [] then Inl IndexError
      else if shape (kernel p) \<noteq> [last (shape x), features] \<or> shape (bias p) \<noteq> [features]
        then Inl ScopeParamShapeError
      else Inr \<lparr>shape = butlast (shape x) @ [features],
                data = concat (map (dense_row p (last (shape x)) features) (rows x))\<rparr>)"

section \<open>algo/module/ef\_wrapper.py\<close>

record ZEncoder =
  nz :: nat
  z_mean :: real
  z_scale :: real

text \<open>
  \<^verbatim>\<open>ZEncoder.__call__\<close>. The callers in value.py hand their optional \<open>z\<close>
  straight to the encoder, so the argument may be None, on which the subtraction
  raises TypeError. Division by a zero \<open>z_scale\<close> gives infinities or NaN in the
  code and 0 in HOL: the theorems on values ask for a non-zero scale.
\<close>

definition ZEncoder_call :: "ZEncoder \<Rightarrow> dense_vars \<Rightarrow> tensor option \<Rightarrow> error + tensor" where
  "ZEncoder_call self params z =
     (case z of
        None \<Rightarrow> Inl TypeError
      | Some z \<Rightarrow>
          (let norm_z = tmap (\<lambda>v. (v - z_mean self) / z_scale self) z
           in and_then (Dense (nz self) params norm_z) (\<lambda>enc_z.
              Inr (tmap tanh enc_z))))"

text \<open>
  \<^verbatim>\<open>EFWrapper.__call__\<close>. The wrapped classes are arbitrary modules: each is a
  function of its own variables and its input that may fail. \<^verbatim>\<open>z[..., None]\<close>
  appends an axis of length one and keeps the elements.
\<close>

definition expand_last :: "tensor \<Rightarrow> tensor" where
  "expand_last z = \<lparr>shape = shape z @ [1], data = data z\<rparr>"

definition EFWrapper_call ::
  "('pb \<Rightarrow> tensor \<Rightarrow> error + 'r) \<Rightarrow> ('pe \<Rightarrow> tensor option \<Rightarrow> error + tensor)
     \<Rightarrow> 'pb \<times> 'pe \<Rightarrow> tensor \<Rightarrow> tensor \<Rightarrow> error + 'r" where
  "EFWrapper_call base_cls z_encoder_cls params obs z =
     (if ndim obs \<noteq> ndim z + 1 then Inl AssertionError
      else
        (let z = expand_last z
         in and_then (z_encoder_cls (snd params) (Some z)) (\<lambda>enc_z.
            and_then (concatenate_last obs enc_z) (\<lambda>feat.
            base_cls (fst params) feat))))"

section \<open>algo/module/value.py\<close>

text \<open>
  The graph network, the MLP head and the recurrent wrapper live in modules
  that are not part of the sources at hand. They enter as parameters: a module
  class is a function of its variables (of an arbitrary type \<open>'p\<close>) and its
  inputs. The variables handed to \<^verbatim>\<open>apply\<close> are a record with one entry per
  submodule, named as flax names them.
\<close>

record 'p params =
  GraphTransformerGNN_0 :: 'p
  ValueGNNHead :: 'p
  RNN_0 :: 'p
  ZEncoder_0 :: dense_vars
  Dense_0 :: dense_vars

text \<open>\<^verbatim>\<open>StateFn.__call__\<close>: here the graph network also takes the recurrent
  state and returns a pair, of which the second part is dropped.\<close>

definition StateFn_call ::
  "('p \<Rightarrow> 'g \<Rightarrow> tensor \<Rightarrow> nat \<Rightarrow> tensor \<times> tensor) \<Rightarrow> ('p \<Rightarrow> tensor \<Rightarrow> tensor)
     \<Rightarrow> 'p params \<Rightarrow> 'g \<Rightarrow> tensor \<Rightarrow> nat \<Rightarrow> bool \<Rightarrow> error + tensor \<times> tensor" where
  "StateFn_call gnn_cls head_cls params obs rnn_state n_agents get_value =
     (let (x, _) = gnn_cls (GraphTransformerGNN_0 params) obs rnn_state n_agents
      in and_then (mean_axis0 False x) (\<lambda>x.
         let x = head_cls (ValueGNNHead params) x
         in if get_value
            then and_then (Dense 1 (Dense_0 params) x) (\<lambda>x. Inr (x, rnn_state))
            else Inr (x, rnn_state)))"

record ('g, 'p) RStateFn =
  gnn_cls :: "'p \<Rightarrow> 'g \<Rightarrow> nat \<Rightarrow> tensor"
  head_cls :: "'p \<Rightarrow> tensor \<Rightarrow> tensor"
  n_out :: nat
  rnn_cls :: "('p \<Rightarrow> tensor \<Rightarrow> tensor \<Rightarrow> tensor \<times> tensor) option"
  z_encoder_cls :: "(dense_vars \<Rightarrow> tensor option \<Rightarrow> error + tensor) option"

record ('g, 'p) DecRStateFn = "('g, 'p) RStateFn" +
  use_global_info :: bool

text \<open>The steps the two recurrent heads share: the latent branch, and the
  recurrent cell when one is configured.\<close>

definition add_z ::
  "(dense_vars \<Rightarrow> tensor option \<Rightarrow> error + tensor) option \<Rightarrow> dense_vars \<Rightarrow> tensor option
     \<Rightarrow> tensor \<Rightarrow> error + tensor" where
  "add_z enc_cls p z x =
     (case enc_cls of
        None \<Rightarrow> Inr x
      | Some enc \<Rightarrow> and_then (enc p z) (\<lambda>z_enc. concatenate_last x z_enc))"

definition pass_rnn ::
  "('p \<Rightarrow> tensor \<Rightarrow> tensor \<Rightarrow> tensor \<times> tensor) option \<Rightarrow> 'p \<Rightarrow> tensor \<Rightarrow> tensor
     \<Rightarrow> tensor \<times> tensor" where
  "pass_rnn cls p x rnn_state =
     (case cls of None \<Rightarrow> (x, rnn_state) | Some rnn \<Rightarrow> rnn p x rnn_state)"

definition RStateFn_call ::
  "('g, 'p) RStateFn \<Rightarrow> 'p params \<Rightarrow> 'g \<Rightarrow> tensor \<Rightarrow> nat \<Rightarrow> tensor option
     \<Rightarrow> error + tensor \<times> tensor" where
  "RStateFn_call self params graph rnn_state n_agents z =
     (let x = gnn_cls self (GraphTransformerGNN_0 params) graph n_agents
      in and_then (mean_axis0 True x) (\<lambda>x.
         and_then (add_z (z_encoder_cls self) (ZEncoder_0 params) z x) (\<lambda>x.
         let x = head_cls self (ValueGNNHead params) x;
             (x, rnn_state) = pass_rnn (rnn_cls self) (RNN_0 params) x rnn_state
         in and_then (Dense (n_out self) (Dense_0 params) x) (\<lambda>x.
            Inr (x, rnn_state)))))"

text \<open>
  \<^verbatim>\<open>DecRStateFn.__call__\<close>. The features that reach the head are computed by
  \<open>pre_head\<close> (the source's lines up to the head); then come the head, the first
  assertion (whose \<^verbatim>\<open>x.shape[0]\<close> is an IndexError on a rank-0 array), the
  recurrent cell, the projection and the second assertion.
\<close>

definition add_global_info :: "bool \<Rightarrow> nat \<Rightarrow> tensor \<Rightarrow> error + tensor" where
  "add_global_info use_global n_agents x =
     (if use_global
      then and_then (mean_axis0 True x) (\<lambda>x_global.
           concatenate_last x (tile x_global [n_agents, 1]))
      else Inr x)"

definition pre_head ::
  "('g, 'p) DecRStateFn \<Rightarrow> 'p params \<Rightarrow> tensor \<Rightarrow> nat \<Rightarrow> tensor option \<Rightarrow> error + tensor" where
  "pre_head self params x n_agents z =
     and_then (add_global_info (use_global_info self) n_agents x) (\<lambda>x.
     add_z (z_encoder_cls self) (ZEncoder_0 params) z x)"

definition DecRStateFn_call ::
  "('g, 'p) DecRStateFn \<Rightarrow> 'p params \<Rightarrow> 'g \<Rightarrow> tensor \<Rightarrow> nat \<Rightarrow> tensor option
     \<Rightarrow> error + tensor \<times> tensor" where
  "DecRStateFn_call self params graph rnn_state n_agents z =
     (let x = gnn_cls self (GraphTransformerGNN_0 params) graph n_agents
      in and_then (pre_head self params x n_agents z) (\<lambda>x.
         let x = head_cls self (ValueGNNHead params) x
         in and_then (shape_at x 0) (\<lambda>d.
            if d \<noteq> n_agents then Inl AssertionError
            else
              (let (x, rnn_state) = pass_rnn (rnn_cls self) (RNN_0 params) x rnn_state
               in and_then (Dense (n_out self) (Dense_0 params) x) (\<lambda>x.
                  if shape x \<noteq> [n_agents, n_out self] then Inl AssertionError
                  else Inr (x, rnn_state))))))"

text \<open>
  \<^verbatim>\<open>ValueNet\<close>. The classes it imports from outside the sources at hand are
  the fields of \<open>classes\<close>, each taking the keyword arguments the constructor
  fixes with \<^verbatim>\<open>functools.partial\<close>: the graph network (msg\_dim, out\_dim,
  n\_heads, n\_layers), the MLP (hid\_sizes, act\_final; its activation is
  always relu and its name ValueGNNHead), the recurrent wrapper
  (cell class with its features, rnn\_layers) and the cell's
  \<^verbatim>\<open>initialize_carry\<close> (key, input shape).
\<close>

datatype cell = LSTMCell | GRUCell

record ('g, 'p, 'k) classes =
  GraphTransformerGNN :: "nat \<Rightarrow> nat \<Rightarrow> nat \<Rightarrow> nat \<Rightarrow> 'p \<Rightarrow> 'g \<Rightarrow> nat \<Rightarrow> tensor"
  MLP :: "nat list \<Rightarrow> bool \<Rightarrow> 'p \<Rightarrow> tensor \<Rightarrow> tensor"
  RNN :: "cell \<times> nat \<Rightarrow> nat \<Rightarrow> 'p \<Rightarrow> tensor \<Rightarrow> tensor \<Rightarrow> tensor \<times> tensor"
  cell_initialize_carry :: "cell \<times> nat \<Rightarrow> 'k \<Rightarrow> nat list \<Rightarrow> tensor"

datatype ('g, 'p) net =
  RStateFn_net "('g, 'p) RStateFn"
  | DecRStateFn_net "('g, 'p) DecRStateFn"

record ('g, 'p) ValueNet =
  node_dim :: nat
  edge_dim :: nat
  self_n_agents :: nat
  self_n_out :: nat
  gnn_out_dim :: nat
  use_ef :: bool
  decompose :: bool
  self_use_global_info :: bool
  gnn :: "'p \<Rightarrow> 'g \<Rightarrow> nat \<Rightarrow> tensor"
  head :: "'p \<Rightarrow> tensor \<Rightarrow> tensor"
  use_rnn :: bool
  z_encoder :: "(dense_vars \<Rightarrow> tensor option \<Rightarrow> error + tensor) option"
  rnn_base :: "(cell \<times> nat) option"
  rnn :: "('p \<Rightarrow> tensor \<Rightarrow> tensor \<Rightarrow> tensor \<times> tensor) option"
  net :: "('g, 'p) net"

definition make_net ::
  "bool \<Rightarrow> ('p \<Rightarrow> 'g \<Rightarrow> nat \<Rightarrow> tensor) \<Rightarrow> ('p \<Rightarrow> tensor \<Rightarrow> tensor) \<Rightarrow> nat
     \<Rightarrow> ('p \<Rightarrow> tensor \<Rightarrow> tensor \<Rightarrow> tensor \<times> tensor) option
     \<Rightarrow> (dense_vars \<Rightarrow> tensor option \<Rightarrow> error + tensor) option \<Rightarrow> bool \<Rightarrow> ('g, 'p) net" where
  "make_net decompose' g h n_out' r ze use_global_info' =
     (if decompose'
      then DecRStateFn_net \<lparr>gnn_cls = g, head_cls = h, n_out = n_out', rnn_cls = r,
             z_encoder_cls = ze, use_global_info = use_global_info'\<rparr>
      else RStateFn_net \<lparr>gnn_cls = g, head_cls = h, n_out = n_out', rnn_cls = r,
             z_encoder_cls = ze\<rparr>)"

text \<open>\<^verbatim>\<open>ValueNet.__init__\<close>, its arguments in the source's order. Without
  recurrence the attributes \<^verbatim>\<open>rnn_base\<close> and \<^verbatim>\<open>rnn\<close> are never set (None here)
  and the head is built with the default \<^verbatim>\<open>rnn_cls=None\<close>.\<close>

definition ValueNet_init ::
  "('g, 'p, 'k) classes \<Rightarrow> nat \<Rightarrow> nat \<Rightarrow> nat \<Rightarrow> nat \<Rightarrow> bool \<Rightarrow> nat \<Rightarrow> nat \<Rightarrow> nat
     \<Rightarrow> bool \<Rightarrow> bool \<Rightarrow> bool \<Rightarrow> bool \<Rightarrow> ('g, 'p) ValueNet" where
  "ValueNet_init lib node_dim' edge_dim' n_agents' n_out' use_rnn' rnn_layers gnn_layers
       gnn_out_dim' use_lstm use_ef' decompose' use_global_info' =
     (let g = GraphTransformerGNN lib 32 gnn_out_dim' 3 gnn_layers;
          h = MLP lib [64, 64] True;
          ze = (if use_ef' then Some (ZEncoder_call \<lparr>nz = 8, z_mean = 1, z_scale = 1\<rparr>)
                else None);
          rb = (if use_rnn' then Some (if use_lstm then LSTMCell else GRUCell, 64) else None);
          r = (case rb of None \<Rightarrow> None | Some b \<Rightarrow> Some (RNN lib b rnn_layers))
      in \<lparr>node_dim = node_dim', edge_dim = edge_dim', self_n_agents = n_agents',
           self_n_out = n_out', gnn_out_dim = gnn_out_dim', use_ef = use_ef',
           decompose = decompose', self_use_global_info = use_global_info',
           gnn = g, head = h, use_rnn = use_rnn', z_encoder = ze, rnn_base = rb, rnn = r,
           net = make_net decompose' g h n_out' r ze use_global_info'\<rparr>)"

definition initialize_carry ::
  "('g, 'p, 'k) classes \<Rightarrow> ('g, 'p) ValueNet \<Rightarrow> 'k \<Rightarrow> error + tensor" where
  "initialize_carry lib self key =
     (if use_rnn self
      then (case rnn_base self of
              None \<Rightarrow> Inl AttributeError
            | Some b \<Rightarrow> Inr (cell_initialize_carry lib b key [gnn_out_dim self]))
      else Inr (zeros [gnn_out_dim self]))"

definition net_apply ::
  "('g, 'p) net \<Rightarrow> 'p params \<Rightarrow> 'g \<Rightarrow> tensor \<Rightarrow> nat \<Rightarrow> tensor option
     \<Rightarrow> error + tensor \<times> tensor" where
  "net_apply m params obs rnn_state n_agents z =
     (case m of
        RStateFn_net f \<Rightarrow> RStateFn_call f params obs rnn_state n_agents z
      | DecRStateFn_net f \<Rightarrow> DecRStateFn_call f params obs rnn_state n_agents z)"

definition get_value ::
  "('g, 'p) ValueNet \<Rightarrow> 'p params \<Rightarrow> 'g \<Rightarrow> tensor \<Rightarrow> tensor option
     \<Rightarrow> error + tensor \<times> tensor" where
  "get_value self params obs rnn_state z =
     net_apply (net self) params obs rnn_state (self_n_agents self) z"

section \<open>trainer/data.py: the rollout container\<close>

record 'g Rollout =
  graph :: 'g
  actions :: tensor
  rnn_states :: tensor
  rewards :: tensor
  costs :: tensor
  dones :: tensor
  log_pis :: tensor
  next_graph :: 'g
  zs :: "tensor option"
  z_global :: "tensor option"

definition rollout_length :: "'g Rollout \<Rightarrow> error + nat" where
  "rollout_length self = shape_at (rewards self) 0"

definition time_horizon :: "'g Rollout \<Rightarrow> error + nat" where
  "time_horizon self = shape_at (rewards self) 1"

definition num_agents :: "'g Rollout \<Rightarrow> error + nat" where
  "num_agents self = shape_at (rewards self) 2"

definition n_data :: "'g Rollout \<Rightarrow> error + nat" where
  "n_data self =
     and_then (rollout_length self) (\<lambda>l.
     and_then (time_horizon self) (\<lambda>h. Inr (l * h)))"

section \<open>Rows that do not mix\<close>



section \<open>Stand-ins for the absent modules\<close>

text \<open>
  Concrete modules of the right kinds, on which the theorems below are tried:
  a graph is the array of its agents' node features and the graph network
  scales it; the MLP maps every row to \<open>last hid_sizes\<close> copies of the rectified
  sum of the row; the recurrent wrapper scales its input and keeps it as the
  new state. Variables are single real numbers.
\<close>

definition ex_gnn :: "nat \<Rightarrow> nat \<Rightarrow> nat \<Rightarrow> nat \<Rightarrow> real \<Rightarrow> tensor \<Rightarrow> nat \<Rightarrow> tensor" where
  "ex_gnn msg_dim out_dim n_heads n_layers p g n_type = tmap (\<lambda>v. p * v) g"

definition ex_gnn_state :: "real \<Rightarrow> tensor \<Rightarrow> tensor \<Rightarrow> nat \<Rightarrow> tensor \<times> tensor" where
  "ex_gnn_state p g rnn_state n_type = (tmap (\<lambda>v. p * v) g, rnn_state)"

definition ex_mlp :: "nat list \<Rightarrow> bool \<Rightarrow> real \<Rightarrow> tensor \<Rightarrow> tensor" where
  "ex_mlp hid_sizes act_final p t =
     \<lparr>shape = butlast (shape t) @ [last hid_sizes],
      data = concat (map (\<lambda>x. replicate (last hid_sizes) (max 0 (p + sum_list x))) (rows t))\<rparr>"

definition ex_rnn :: "cell \<times> nat \<Rightarrow> nat \<Rightarrow> real \<Rightarrow> tensor \<Rightarrow> tensor \<Rightarrow> tensor \<times> tensor" where
  "ex_rnn b layers p x rnn_state = (tmap (\<lambda>v. p * v) x, x)"

definition ex_carry :: "cell \<times> nat \<Rightarrow> nat \<Rightarrow> nat list \<Rightarrow> tensor" where
  "ex_carry b key s = zeros (butlast s @ [snd b])"

definition ex_classes :: "(tensor, real, nat) classes" where
  "ex_classes = \<lparr>GraphTransformerGNN = ex_gnn, MLP = ex_mlp, RNN = ex_rnn,
     cell_initialize_carry = ex_carry\<rparr>"

definition ex_dense :: "nat \<Rightarrow> nat \<Rightarrow> real \<Rightarrow> real \<Rightarrow> dense_vars" where
  "ex_dense d f k b =
     \<lparr>kernel = \<lparr>shape = [d, f], data = replicate (d * f) k\<rparr>,
      bias = \<lparr>shape = [f], data = replicate f b\<rparr>\<rparr>"

definition ex_params :: "nat \<Rightarrow> nat \<Rightarrow> nat \<Rightarrow> real params" where
  "ex_params z_width head_width n_out' =
     \<lparr>GraphTransformerGNN_0 = 1, ValueGNNHead = 0, RNN_0 = 1,
      ZEncoder_0 = ex_dense z_width 8 1 0,
      Dense_0 = ex_dense head_width n_out' 1 (1 / 2)\<rparr>"

section \<open>Basic facts\<close>

lemma and_then_Inr [simp]: "and_then (Inr v) f = f v"
  by (simp add: and_then_def)

lemma and_then_Inl [simp]: "and_then (Inl e) f = Inl e"
  by (simp add: and_then_def)

lemma and_then_eq_Inr:
  "and_then r f = Inr y \<longleftrightarrow> (\<exists>v. r = Inr v \<and> f v = Inr y)"
  by (cases r) simp_all

lemma shape_tmap [simp]: "shape (tmap f t) = shape t"
  by (simp add: tmap_def)

lemma data_tmap [simp]: "data (tmap f t) = map f (data t)"
  by (simp add: tmap_def)

lemma ndim_tmap [simp]: "ndim (tmap f t) = ndim t"
  by (simp add: ndim_def)

lemma length_chunks [simp]: "length (chunks n d xs) = n"
  by (simp add: chunks_def)





lemma length_rows [simp]: "length (rows t) = prod_list (butlast (shape t))"
  by (simp add: rows_def)



lemma length_dense_row [simp]: "length (dense_row p d f x) = f"
  by (simp add: dense_row_def)

lemma Dense_eq_Inr:
  "Dense f p x = Inr y \<longleftrightarrow>
     shape x \<noteq> [] \<and> shape (kernel p) = [last (shape x), f] \<and> shape (bias p) = [f]
     \<and> y = \<lparr>shape = butlast (shape x) @ [f],
             data = concat (map (dense_row p (last (shape x)) f) (rows x))\<rparr>"
  by (auto simp: Dense_def)

lemma Dense_shape: "Dense f p x = Inr y \<Longrightarrow> shape y = butlast (shape x) @ [f]"
  by (auto simp: Dense_eq_Inr)


lemma length_concat_map_uniform:
  "(\<And>x. length (g x) = d) \<Longrightarrow> length (concat (map g xs)) = length xs * d"
  by (induction xs) auto

lemma Dense_wf: "Dense f p x = Inr y \<Longrightarrow> wf_tensor y"
  by (auto simp: Dense_eq_Inr wf_tensor_def length_concat_map_uniform)

lemma Dense_not_AssertionError: "Dense f p x \<noteq> Inl AssertionError"
  by (simp add: Dense_def)

lemma concatenate_last_not_AssertionError: "concatenate_last a b \<noteq> Inl AssertionError"
  by (simp add: concatenate_last_def)

lemma ZEncoder_call_not_AssertionError: "ZEncoder_call self p z \<noteq> Inl AssertionError"
  by (auto simp: ZEncoder_call_def Let_def and_then_def Dense_not_AssertionError
      split: option.splits sum.splits)

lemma mean_axis0_shape:
  "mean_axis0 k x = Inr y \<Longrightarrow> shape x \<noteq> [] \<and> shape y = (if k then 1 # tl (shape x) else tl (shape x))"
  by (auto simp: mean_axis0_def split: list.splits)

lemma mean_axis0_matrix:
  "shape x = [a, b] \<Longrightarrow> \<exists>m. mean_axis0 True x = Inr m \<and> shape m = [1, b]"
  by (simp add: mean_axis0_def)

lemma add_z_None [simp]: "add_z None p z x = Inr x"
  by (simp add: add_z_def)

lemma pass_rnn_None [simp]: "pass_rnn None p x st = (x, st)"
  by (simp add: pass_rnn_def)

section \<open>The rollout's derived properties\<close>

text \<open>
  C4. When the rewards array has shape (length, time_horizon, num_agents, ...),
  the four derived properties are the first three dimensions of that shape and
  the product of the first two; a rollout with a rewards array of the same
  shape has the same four properties, whatever its other fields hold.
\<close>

theorem Rollout_derived_properties:
  assumes "shape (rewards r) = l # h # n # rest"
  shows "rollout_length r = Inr l \<and> time_horizon r = Inr h \<and> num_agents r = Inr n
    \<and> n_data r = Inr (l * h)
    \<and> (\<forall>r' :: 'g Rollout. shape (rewards r') = shape (rewards r) \<longrightarrow>
          rollout_length r' = rollout_length r \<and> time_horizon r' = time_horizon r
          \<and> num_agents r' = num_agents r \<and> n_data r' = n_data r)"
  using assms
  by (simp add: rollout_length_def time_horizon_def num_agents_def n_data_def
      shape_at_def ndim_def)

theorem Rollout_derived_properties_witness:
  "n_data \<lparr>graph = (), actions = zeros [5, 3, 2, 1], rnn_states = zeros [5, 3, 2, 1, 2, 64],
      rewards = zeros [5, 3, 2], costs = zeros [5, 3, 2], dones = zeros [5, 3],
      log_pis = zeros [5, 3, 2], next_graph = (), zs = None, z_global = None\<rparr> = Inr 15
   \<and> num_agents \<lparr>graph = (), actions = zeros [5, 3, 2, 1],
      rnn_states = zeros [5, 3, 2, 1, 2, 64],
      rewards = zeros [5, 3, 2], costs = zeros [5, 3, 2], dones = zeros [5, 3],
      log_pis = zeros [5, 3, 2], next_graph = (), zs = None, z_global = None\<rparr> = Inr 2"
proof -
  let ?r = "\<lparr>graph = (), actions = zeros [5, 3, 2, 1], rnn_states = zeros [5, 3, 2, 1, 2, 64],
      rewards = zeros [5, 3, 2], costs = zeros [5, 3, 2], dones = zeros [5, 3],
      log_pis = zeros [5, 3, 2], next_graph = (), zs = None, z_global = None\<rparr>"
  have "shape (rewards ?r) = 5 # 3 # 2 # []"
    by (simp add: zeros_def)
  from Rollout_derived_properties [OF this]
  have "n_data ?r = Inr (5 * 3)" and "num_agents ?r = Inr 2"
    by blast+
  then show ?thesis
    by simp
qed


section \<open>The latent encoder and the latent-conditioning wrapper\<close>





text \<open>
  C6. Provided the wrapped modules raise no assertion failure of their own,
  EFWrapper fails with AssertionError if and only if the rank of the
  observation is not the rank of the latent plus one. When the ranks fit, the
  result is that of encoding the latent with a trailing axis of length one
  appended, concatenating the encoding to the observation along the last axis
  and applying the base network to the fused array; a failure of one of these
  steps is the failure of the call.
\<close>

theorem EFWrapper_contract:
  assumes "\<forall>p t. base p t \<noteq> Inl AssertionError"
    and "\<forall>p t. enc p t \<noteq> Inl AssertionError"
  shows "(EFWrapper_call base enc params obs z = Inl AssertionError \<longleftrightarrow> ndim obs \<noteq> ndim z + 1)
    \<and> (ndim obs = ndim z + 1 \<longrightarrow>
         EFWrapper_call base enc params obs z
         = and_then (enc (snd params) (Some \<lparr>shape = shape z @ [1], data = data z\<rparr>)) (\<lambda>enc_z.
           and_then (concatenate_last obs enc_z) (\<lambda>feat. base (fst params) feat)))"
  using assms concatenate_last_not_AssertionError
  by (auto simp: EFWrapper_call_def Let_def expand_last_def and_then_def split: sum.splits)

lemma EFWrapper_example_encoder:
  "ZEncoder_call \<lparr>nz = 8, z_mean = 1, z_scale = 1\<rparr> (ex_dense 1 8 1 0)
     (Some \<lparr>shape = [2, 1], data = [1, 1]\<rparr>)
   = Inr \<lparr>shape = [2, 8], data = replicate 16 0\<rparr>"
proof -
  have "Dense 8 (ex_dense 1 8 1 0) \<lparr>shape = [2, 1], data = [0, 0]\<rparr>
      = Inr \<lparr>shape = [2, 8], data = replicate 16 0\<rparr>"
    by code_simp
  then show ?thesis
    by (simp add: ZEncoder_call_def tmap_def)
qed

lemma EFWrapper_example_concatenate:
  "concatenate_last \<lparr>shape = [2, 3], data = [1, 2, 3, 4, 5, 6]\<rparr>
      \<lparr>shape = [2, 8], data = replicate 16 0\<rparr>
   = Inr \<lparr>shape = [2, 11], data = [1, 2, 3] @ replicate 8 0 @ [4, 5, 6] @ replicate 8 0\<rparr>"
  by code_simp

lemma EFWrapper_example_base:
  "Dense 1 (ex_dense 11 1 1 (1 / 2))
      \<lparr>shape = [2, 11], data = [1, 2, 3] @ replicate 8 0 @ [4, 5, 6] @ replicate 8 0\<rparr>
   = Inr \<lparr>shape = [2, 1], data = [13 / 2, 31 / 2]\<rparr>"
  by code_simp

theorem EFWrapper_contract_witness:
  "EFWrapper_call (Dense 1) (ZEncoder_call \<lparr>nz = 8, z_mean = 1, z_scale = 1\<rparr>)
      (ex_dense 11 1 1 (1 / 2), ex_dense 1 8 1 0)
      \<lparr>shape = [3], data = [1, 2, 3]\<rparr> \<lparr>shape = [2], data = [1, 1]\<rparr> = Inl AssertionError
   \<and> EFWrapper_call (Dense 1) (ZEncoder_call \<lparr>nz = 8, z_mean = 1, z_scale = 1\<rparr>)
      (ex_dense 11 1 1 (1 / 2), ex_dense 1 8 1 0)
      \<lparr>shape = [2, 3], data = [1, 2, 3, 4, 5, 6]\<rparr> \<lparr>shape = [2], data = [1, 1]\<rparr>
     = Inr \<lparr>shape = [2, 1], data = [13 / 2, 31 / 2]\<rparr>"
proof -
  let ?B = "Dense 1" and ?E = "ZEncoder_call \<lparr>nz = 8, z_mean = 1, z_scale = 1\<rparr>"
  let ?P = "(ex_dense 11 1 1 (1 / 2), ex_dense 1 8 1 0)"
  have b: "\<forall>p t. ?B p t \<noteq> Inl AssertionError"
    by (simp add: Dense_not_AssertionError)
  have e: "\<forall>p t. ?E p t \<noteq> Inl AssertionError"
    by (simp add: ZEncoder_call_not_AssertionError)
  have "EFWrapper_call ?B ?E ?P \<lparr>shape = [3], data = [1, 2, 3]\<rparr> \<lparr>shape = [2], data = [1, 1]\<rparr>
      = Inl AssertionError"
    using EFWrapper_contract [OF b e, of ?P "\<lparr>shape = [3], data = [1, 2, 3]\<rparr>"
        "\<lparr>shape = [2], data = [1, 1]\<rparr>"]
    by (simp add: ndim_def)
  moreover have "EFWrapper_call ?B ?E ?P \<lparr>shape = [2, 3], data = [1, 2, 3, 4, 5, 6]\<rparr>
      \<lparr>shape = [2], data = [1, 1]\<rparr> = Inr \<lparr>shape = [2, 1], data = [13 / 2, 31 / 2]\<rparr>"
    using EFWrapper_contract [OF b e, of ?P "\<lparr>shape = [2, 3], data = [1, 2, 3, 4, 5, 6]\<rparr>"
        "\<lparr>shape = [2], data = [1, 1]\<rparr>"]
      EFWrapper_example_encoder EFWrapper_example_concatenate EFWrapper_example_base
    by (simp add: ndim_def)
  ultimately show ?thesis
    by simp
qed

section \<open>The centralized value function\<close>

text \<open>
  C8. Whatever \<^verbatim>\<open>get_value\<close> is, a call of StateFn that returns gives back, as
  the second component, exactly the recurrent state it was passed.
\<close>

theorem StateFn_state_pass_through:
  "StateFn_call g h params obs rnn_state n_agents gv = Inr (v, s) \<Longrightarrow> s = rnn_state"
  by (auto simp: StateFn_call_def Let_def and_then_eq_Inr split: prod.splits if_splits)

lemma StateFn_example_value:
  "StateFn_call ex_gnn_state (ex_mlp [4, 4] True) (ex_params 1 4 1)
      \<lparr>shape = [2, 3], data = [1, 2, 3, 3, 4, 5]\<rparr> (zeros [1, 1, 4]) 2 True
    = Inr (\<lparr>shape = [1], data = [73 / 2]\<rparr>, zeros [1, 1, 4])"
  by code_simp


theorem StateFn_state_pass_through_witness:
  "StateFn_call ex_gnn_state (ex_mlp [4, 4] True) (ex_params 1 4 1)
      \<lparr>shape = [2, 3], data = [1, 2, 3, 3, 4, 5]\<rparr> (zeros [1, 1, 4]) 2 True
    = Inr (\<lparr>shape = [1], data = [73 / 2]\<rparr>, zeros [1, 1, 4])
   \<and> snd (\<lparr>shape = [1], data = [73 / 2]\<rparr>, zeros [1, 1, 4]) = zeros [1, 1, 4]"
  using StateFn_state_pass_through [OF StateFn_example_value] StateFn_example_value
  by simp



section \<open>The value-network facade\<close>

text \<open>
  C7. A ValueNet constructed with \<^verbatim>\<open>use_rnn=False\<close> returns, for every key, the
  array of shape (gnn\_out\_dim,) whose elements are all zero.
\<close>

theorem initialize_carry_without_rnn:
  "initialize_carry lib
     (ValueNet_init lib node_dim' edge_dim' n_agents' n_out' False rnn_layers gnn_layers
        gnn_out_dim' use_lstm use_ef' decompose' use_global_info') key
   = Inr \<lparr>shape = [gnn_out_dim'], data = replicate gnn_out_dim' 0\<rparr>"
  by (simp add: initialize_carry_def ValueNet_init_def zeros_def Let_def)

text \<open>
  C10. A ValueNet constructed with \<^verbatim>\<open>use_ef=False\<close> gives the same result of
  \<^verbatim>\<open>get_value\<close> (the same value and state, or the same failure) for any two
  latent arguments, None included.
\<close>

theorem get_value_ignores_z_without_ef:
  "get_value (ValueNet_init lib node_dim' edge_dim' n_agents' n_out' use_rnn' rnn_layers
        gnn_layers gnn_out_dim' use_lstm False decompose' use_global_info')
      params obs rnn_state z1
   = get_value (ValueNet_init lib node_dim' edge_dim' n_agents' n_out' use_rnn' rnn_layers
        gnn_layers gnn_out_dim' use_lstm False decompose' use_global_info')
      params obs rnn_state z2"
  by (simp add: get_value_def ValueNet_init_def make_net_def net_apply_def Let_def
      RStateFn_call_def DecRStateFn_call_def pre_head_def add_z_def)

text \<open>
  C1, as the code has it. Take a ValueNet constructed with \<^verbatim>\<open>n_agents=4\<close>,
  \<^verbatim>\<open>use_rnn=False\<close>, \<^verbatim>\<open>use_ef=False\<close>, \<^verbatim>\<open>decompose=False\<close>, whose graph network
  yields a rank-2 embedding and whose MLP with \<^verbatim>\<open>hid_sizes=(64, 64)\<close> maps the
  trailing axis to 64 features. Every result of \<^verbatim>\<open>get_value\<close> has a value of shape
  (1, n\_out), which is (1, 1) for the default \<^verbatim>\<open>n_out=1\<close>, and the recurrent state
  that was passed in; and \<^verbatim>\<open>get_value\<close> does return when the variables of the
  final projection have the shapes (64, n\_out) and (n\_out,). The mean is taken
  with \<^verbatim>\<open>keepdims=True\<close>, so the leading axis of length one stays.
\<close>

theorem get_value_centralized_shape:
  assumes "ndim (GraphTransformerGNN lib 32 gnn_out_dim' 3 gnn_layers
              (GraphTransformerGNN_0 params) obs 4) = 2"
    and "\<forall>p t. shape t \<noteq> [] \<longrightarrow> shape (MLP lib [64, 64] True p t) = butlast (shape t) @ [64]"
  shows "(\<forall>v s. get_value (ValueNet_init lib node_dim' edge_dim' 4 n_out' False rnn_layers
             gnn_layers gnn_out_dim' use_lstm False False use_global_info')
             params obs rnn_state z = Inr (v, s)
           \<longrightarrow> shape v = [1, n_out'] \<and> s = rnn_state)
    \<and> (shape (kernel (Dense_0 params)) = [64, n_out'] \<and> shape (bias (Dense_0 params)) = [n_out']
         \<longrightarrow> (\<exists>v. get_value (ValueNet_init lib node_dim' edge_dim' 4 n_out' False rnn_layers
                  gnn_layers gnn_out_dim' use_lstm False False use_global_info')
                  params obs rnn_state z = Inr (v, rnn_state)))"
proof -
  let ?x = "GraphTransformerGNN lib 32 gnn_out_dim' 3 gnn_layers (GraphTransformerGNN_0 params) obs 4"
  let ?h = "MLP lib [64, 64] True (ValueGNNHead params)"
  from assms(1) obtain a b where "shape ?x = [a, b]"
    by (cases "shape ?x" rule: list.exhaust; cases "tl (shape ?x)"; auto simp: ndim_def)
  from mean_axis0_matrix [OF this] obtain m where m: "mean_axis0 True ?x = Inr m"
    and sm: "shape m = [1, b]"
    by blast
  from assms(2) sm have sh: "shape (?h m) = [1, 64]"
    by simp
  have call: "get_value (ValueNet_init lib node_dim' edge_dim' 4 n_out' False rnn_layers
             gnn_layers gnn_out_dim' use_lstm False False use_global_info')
             params obs rnn_state z
      = and_then (Dense n_out' (Dense_0 params) (?h m)) (\<lambda>y. Inr (y, rnn_state))"
    using m by (simp add: get_value_def ValueNet_init_def make_net_def net_apply_def Let_def
        RStateFn_call_def)
  show ?thesis
    using sh by (auto simp: call and_then_eq_Inr Dense_eq_Inr)
qed

lemma get_value_example:
  "RStateFn_call \<lparr>gnn_cls = ex_gnn 32 2 3 1, head_cls = ex_mlp [64, 64] True, n_out = 1,
       rnn_cls = None, z_encoder_cls = None\<rparr>
     (ex_params 1 64 1) \<lparr>shape = [4, 2], data = [1, 2, 3, 4, 5, 6, 7, 8]\<rparr> (zeros [2]) 4 None
   = Inr (\<lparr>shape = [1, 1], data = [1153 / 2]\<rparr>, zeros [2])"
  by code_simp

text \<open>
  The claim's shape (1,) does not occur: on four agents with two features each
  the value returned has shape (1, 1).
\<close>

theorem get_value_centralized_shape_counterexample:
  "get_value (ValueNet_init ex_classes 2 1 4 1 False 1 1 2 False False False False)
     (ex_params 1 64 1) \<lparr>shape = [4, 2], data = [1, 2, 3, 4, 5, 6, 7, 8]\<rparr> (zeros [2]) None
   = Inr (\<lparr>shape = [1, 1], data = [1153 / 2]\<rparr>, zeros [2])
   \<and> shape \<lparr>shape = [1, 1], data = [1153 / 2]\<rparr> \<noteq> [1]"
  using get_value_example
  by (simp add: get_value_def ValueNet_init_def make_net_def net_apply_def Let_def ex_classes_def)

theorem get_value_centralized_shape_witness:
  "get_value (ValueNet_init ex_classes 2 1 4 1 False 1 1 2 False False False False)
     (ex_params 1 64 1) \<lparr>shape = [4, 2], data = [1, 2, 3, 4, 5, 6, 7, 8]\<rparr> (zeros [2]) None
   = Inr (\<lparr>shape = [1, 1], data = [1153 / 2]\<rparr>, zeros [2])
   \<and> shape \<lparr>shape = [1, 1], data = [1153 / 2 :: real]\<rparr> = [1, 1]"
proof -
  have g: "ndim (GraphTransformerGNN ex_classes 32 2 3 1 (GraphTransformerGNN_0 (ex_params 1 64 1))
      \<lparr>shape = [4, 2], data = [1, 2, 3, 4, 5, 6, 7, 8]\<rparr> 4) = 2"
    by (simp add: ex_classes_def ex_gnn_def ndim_def)
  have h: "\<forall>p t. shape t \<noteq> [] \<longrightarrow> shape (MLP ex_classes [64, 64] True p t) = butlast (shape t) @ [64]"
    by (simp add: ex_classes_def ex_mlp_def)
  have e: "get_value (ValueNet_init ex_classes 2 1 4 1 False 1 1 2 False False False False)
     (ex_params 1 64 1) \<lparr>shape = [4, 2], data = [1, 2, 3, 4, 5, 6, 7, 8]\<rparr> (zeros [2]) None
   = Inr (\<lparr>shape = [1, 1], data = [1153 / 2]\<rparr>, zeros [2])"
    using get_value_example
    by (simp add: get_value_def ValueNet_init_def make_net_def net_apply_def Let_def ex_classes_def)
  from get_value_centralized_shape [OF g h, of 2 1 1 1 False False "zeros [2]" None] e
  show ?thesis
    by blast
qed

section \<open>The decomposed head\<close>









section \<open>What an agent's output depends on\<close>



























end
